theory Spec2Isabelle
  imports Complex_Main
begin

section \<open>Starfield.js: a shallow embedding\<close>

text \<open>
  The development follows \<^verbatim>\<open>src/starfield.js\<close> function by function.

  \<^item> JavaScript numbers are modelled as \<^typ>\<open>real\<close>: the arithmetic is the exact one, without
    rounding, \<^verbatim>\<open>NaN\<close> or the infinities. HOL's \<open>x / 0\<close> is \<open>0\<close> where JavaScript yields a
    non-finite value; the results below read a quotient only where its divisor is not zero
    (\<^verbatim>\<open>updateStar\<close> projects a star only once \<open>z \<ge> 1\<close> is known). The trail end and the
    line width of a stroke can be quotients by zero (a trail depth or a maximum depth of
    0), and no statement reads them.
  \<^item> An option that the code inspects dynamically (\<^verbatim>\<open>fullPage\<close>, \<^verbatim>\<open>dprCap\<close>) is a
    \<open>jsval\<close>; the other options are modelled at the type the code computes with.
  \<^item> The object \<^verbatim>\<open>this\<close> is the record \<open>starfield\<close>. The pieces of the platform that the
    methods write to are fields of the same record: the calls on the 2D context
    (\<open>ctxLog\<close>), the frame callbacks requested and not yet run or cancelled
    (\<open>rafPending\<close>, \<open>rafNext\<close>) and the position in the sequence of values that
    \<^verbatim>\<open>Math.random()\<close> returns (\<open>randomSeq\<close>, \<open>randomPos\<close>).
  \<^item> What a method reads from \<^verbatim>\<open>window\<close> and the document at the time of the call is the
    record \<open>env\<close>, a parameter.
  \<^item> Canvas styling, mounting, the resize listeners and \<^verbatim>\<open>destroy\<close> are not modelled.
\<close>

subsection \<open>Values and data\<close>

datatype jsval =
    JUndefined | JNull | JBool bool | JNum real | JNaN | JPosInf | JNegInf | JStr string

text \<open>The coercion \<^verbatim>\<open>!!v\<close>.\<close>

fun truthy :: "jsval \<Rightarrow> bool" where
  "truthy JUndefined = False"
| "truthy JNull = False"
| "truthy (JBool b) = b"
| "truthy (JNum r) = (r \<noteq> 0)"
| "truthy JNaN = False"
| "truthy JPosInf = True"
| "truthy JNegInf = True"
| "truthy (JStr s) = (s \<noteq> [])"

datatype element = Body | DocumentElement | Elem nat

text \<open>
  The \<^verbatim>\<open>target\<close> option: a falsy value, a string, a DOM element (\<^verbatim>\<open>nodeType === 1\<close>) or
  anything else.
\<close>

datatype target_val = TFalsy | TSelector string | TElement element | TInvalid

datatype error = TargetNotFound string | TargetInvalid | NoContext

record star =
  star_x :: real
  star_y :: real
  star_z :: real
  star_pz :: real

text \<open>The resolved options \<^verbatim>\<open>this.options\<close>; the fields are the keys of \<^verbatim>\<open>DEFAULTS\<close>.\<close>

record opts =
  opt_target :: target_val
  opt_fullPage :: jsval
  opt_autostart :: bool
  opt_zIndex :: int
  opt_backgroundColor :: string
  opt_starColor :: string
  opt_starCount :: nat
  opt_speed :: real
  opt_trailLength :: real
  opt_mobileSpeedMultiplier :: real
  opt_desktopSpeedMultiplier :: real
  opt_mobileTrailMultiplier :: real
  opt_desktopTrailMultiplier :: real
  opt_mobileBreakpoint :: real
  opt_dprCap :: jsval

text \<open>The object the caller passes: \<open>None\<close> is a key that is not an own property.\<close>

record user_options =
  u_target :: "target_val option"
  u_fullPage :: "jsval option"
  u_autostart :: "bool option"
  u_zIndex :: "int option"
  u_backgroundColor :: "string option"
  u_starColor :: "string option"
  u_starCount :: "nat option"
  u_speed :: "real option"
  u_trailLength :: "real option"
  u_mobileSpeedMultiplier :: "real option"
  u_desktopSpeedMultiplier :: "real option"
  u_mobileTrailMultiplier :: "real option"
  u_desktopTrailMultiplier :: "real option"
  u_mobileBreakpoint :: "real option"
  u_dprCap :: "jsval option"

datatype drawop =
    FillRect string real real real real
  | SetTransform real
  | Stroke string real real real real real

text \<open>
  \<open>Stroke colour lineWidth px py sx sy\<close> is the path from \<open>(px, py)\<close> to \<open>(sx, sy)\<close>.
\<close>

fun stroke_end :: "drawop \<Rightarrow> (real \<times> real) option" where
  "stroke_end (Stroke c w px py sx sy) = Some (sx, sy)"
| "stroke_end (FillRect c a b w h) = None"
| "stroke_end (SetTransform d) = None"

record env =
  innerWidth :: real
  innerHeight :: real
  pointerCoarse :: bool
  devicePixelRatio :: "real option"
  boundingRect :: "element \<Rightarrow> real \<times> real"
  querySelector :: "string \<Rightarrow> element option"
  context2d :: bool

record starfield =
  options :: opts
  target :: element
  fullPage :: bool
  stars :: "star list"
  width :: real
  height :: real
  centerX :: real
  centerY :: real
  maxDepth :: real
  speedMultiplier :: real
  trailLength :: real
  lastTime :: real
  running :: bool
  rafId :: "nat option"
  canvasWidth :: real
  canvasHeight :: real
  ctxLog :: "drawop list"
  rafPending :: "nat list"
  rafNext :: nat
  randomSeq :: "nat \<Rightarrow> real"
  randomPos :: nat

subsection \<open>Defaults and helpers\<close>

definition DEFAULTS :: opts where
  "DEFAULTS = \<lparr> opt_target = TFalsy, opt_fullPage = JBool True, opt_autostart = True,
     opt_zIndex = - 1, opt_backgroundColor = ''#000000'', opt_starColor = ''#FFFFFF'',
     opt_starCount = 800, opt_speed = 10, opt_trailLength = 10,
     opt_mobileSpeedMultiplier = 1 / 2, opt_desktopSpeedMultiplier = 11 / 10,
     opt_mobileTrailMultiplier = 65 / 100, opt_desktopTrailMultiplier = 1,
     opt_mobileBreakpoint = 900, opt_dprCap = JNum 2 \<rparr>"

definition no_options :: user_options where
  "no_options = \<lparr> u_target = None, u_fullPage = None, u_autostart = None, u_zIndex = None,
     u_backgroundColor = None, u_starColor = None, u_starCount = None, u_speed = None,
     u_trailLength = None, u_mobileSpeedMultiplier = None, u_desktopSpeedMultiplier = None,
     u_mobileTrailMultiplier = None, u_desktopTrailMultiplier = None,
     u_mobileBreakpoint = None, u_dprCap = None \<rparr>"

definition pick :: "'a \<Rightarrow> 'a option \<Rightarrow> 'a" where
  "pick d u = (case u of None \<Rightarrow> d | Some v \<Rightarrow> v)"

text \<open>\<^verbatim>\<open>Object.assign({}, DEFAULTS, options || {})\<close>.\<close>

definition assign_options :: "user_options option \<Rightarrow> opts" where
  "assign_options ou =
     (let u = (case ou of None \<Rightarrow> no_options | Some v \<Rightarrow> v) in
      \<lparr> opt_target = pick (opt_target DEFAULTS) (u_target u),
        opt_fullPage = pick (opt_fullPage DEFAULTS) (u_fullPage u),
        opt_autostart = pick (opt_autostart DEFAULTS) (u_autostart u),
        opt_zIndex = pick (opt_zIndex DEFAULTS) (u_zIndex u),
        opt_backgroundColor = pick (opt_backgroundColor DEFAULTS) (u_backgroundColor u),
        opt_starColor = pick (opt_starColor DEFAULTS) (u_starColor u),
        opt_starCount = pick (opt_starCount DEFAULTS) (u_starCount u),
        opt_speed = pick (opt_speed DEFAULTS) (u_speed u),
        opt_trailLength = pick (opt_trailLength DEFAULTS) (u_trailLength u),
        opt_mobileSpeedMultiplier =
          pick (opt_mobileSpeedMultiplier DEFAULTS) (u_mobileSpeedMultiplier u),
        opt_desktopSpeedMultiplier =
          pick (opt_desktopSpeedMultiplier DEFAULTS) (u_desktopSpeedMultiplier u),
        opt_mobileTrailMultiplier =
          pick (opt_mobileTrailMultiplier DEFAULTS) (u_mobileTrailMultiplier u),
        opt_desktopTrailMultiplier =
          pick (opt_desktopTrailMultiplier DEFAULTS) (u_desktopTrailMultiplier u),
        opt_mobileBreakpoint = pick (opt_mobileBreakpoint DEFAULTS) (u_mobileBreakpoint u),
        opt_dprCap = pick (opt_dprCap DEFAULTS) (u_dprCap u) \<rparr>)"

definition map_js :: "real \<Rightarrow> real \<Rightarrow> real \<Rightarrow> real \<Rightarrow> real \<Rightarrow> real" where
  "map_js v istart istop ostart ostop =
     ostart + (ostop - ostart) * ((v - istart) / (istop - istart))"

definition clamp :: "real \<Rightarrow> real \<Rightarrow> real \<Rightarrow> real" where
  "clamp v lo hi = max lo (min hi v)"

text \<open>
  \<^verbatim>\<open>resolveTarget\<close>: a falsy target (the empty string is falsy) is the body; a selector is
  looked up and must exist; an element is itself; anything else is an error.
\<close>

definition resolveTarget :: "env \<Rightarrow> target_val \<Rightarrow> error + element" where
  "resolveTarget g t =
     (case t of
        TFalsy \<Rightarrow> Inr Body
      | TSelector sel \<Rightarrow>
          (if sel = [] then Inr Body
           else (case querySelector g sel of
                   None \<Rightarrow> Inl (TargetNotFound sel)
                 | Some e \<Rightarrow> Inr e))
      | TElement e \<Rightarrow> Inr e
      | TInvalid \<Rightarrow> Inl TargetInvalid)"

subsection \<open>The platform: random numbers and frame callbacks\<close>

definition random :: "starfield \<Rightarrow> real \<times> starfield" where
  "random s = (randomSeq s (randomPos s), s\<lparr>randomPos := Suc (randomPos s)\<rparr>)"

definition requestAnimationFrame :: "starfield \<Rightarrow> nat \<times> starfield" where
  "requestAnimationFrame s =
     (rafNext s, s\<lparr>rafPending := rafPending s @ [rafNext s], rafNext := Suc (rafNext s)\<rparr>)"

definition cancelAnimationFrame :: "nat \<Rightarrow> starfield \<Rightarrow> starfield" where
  "cancelAnimationFrame h s = s\<lparr>rafPending := removeAll h (rafPending s)\<rparr>"

subsection \<open>Device class and pixel ratio\<close>

definition isMobileViewport :: "env \<Rightarrow> starfield \<Rightarrow> bool" where
  "isMobileViewport g s =
     (pointerCoarse g \<or> min (innerWidth g) (innerHeight g) < opt_mobileBreakpoint (options s))"

text \<open>
  \<^verbatim>\<open>typeof cap === "number"\<close> holds of the finite numbers, of \<^verbatim>\<open>NaN\<close> and of the infinities;
  \<^verbatim>\<open>cap > 0\<close> holds of the positive finite numbers and of \<^verbatim>\<open>Infinity\<close>.
\<close>

fun typeof_number :: "jsval \<Rightarrow> bool" where
  "typeof_number (JNum c) = True"
| "typeof_number JNaN = True"
| "typeof_number JPosInf = True"
| "typeof_number JNegInf = True"
| "typeof_number JUndefined = False"
| "typeof_number JNull = False"
| "typeof_number (JBool b) = False"
| "typeof_number (JStr t) = False"

fun number_gt_zero :: "jsval \<Rightarrow> bool" where
  "number_gt_zero (JNum c) = (0 < c)"
| "number_gt_zero JPosInf = True"
| "number_gt_zero v = False"

text \<open>
  \<^verbatim>\<open>Math.min(dpr, cap)\<close> for a finite \<open>dpr\<close> and a cap that passed both tests: a positive
  finite number or \<^verbatim>\<open>Infinity\<close>. No other cap reaches the call.
\<close>

fun Math_min_cap :: "real \<Rightarrow> jsval \<Rightarrow> real" where
  "Math_min_cap d (JNum c) = min d c"
| "Math_min_cap d v = d"

text \<open>\<^verbatim>\<open>global.devicePixelRatio || 1\<close>: an absent or zero ratio gives 1.\<close>

definition nativeDpr :: "env \<Rightarrow> real" where
  "nativeDpr g = (case devicePixelRatio g of None \<Rightarrow> 1 | Some d \<Rightarrow> if d = 0 then 1 else d)"

definition getDpr :: "env \<Rightarrow> starfield \<Rightarrow> real" where
  "getDpr g s =
     (let dpr = nativeDpr g; cap = opt_dprCap (options s) in
      if typeof_number cap \<and> number_gt_zero cap then Math_min_cap dpr cap else dpr)"

subsection \<open>Stars\<close>

definition resetStar :: "starfield \<Rightarrow> star \<Rightarrow> bool \<Rightarrow> star \<times> starfield" where
  "resetStar s st initial =
     (let (z, s1) = (if initial then (let (r, s') = random s in (r * maxDepth s, s'))
                     else (maxDepth s, s));
          (rx, s2) = random s1;
          (ry, s3) = random s2
      in (st\<lparr> star_x := (rx * width s - width s / 2) * 2,
              star_y := (ry * height s - height s / 2) * 2,
              star_z := z, star_pz := z \<rparr>, s3))"

definition createStar :: "starfield \<Rightarrow> bool \<Rightarrow> star \<times> starfield" where
  "createStar s initial =
     resetStar s \<lparr> star_x = 0, star_y = 0, star_z = 0, star_pz = 0 \<rparr> initial"

fun pushStars :: "nat \<Rightarrow> starfield \<Rightarrow> starfield" where
  "pushStars 0 s = s"
| "pushStars (Suc n) s =
     (let (st, s1) = createStar s True in pushStars n (s1\<lparr>stars := stars s1 @ [st]\<rparr>))"

definition initStars :: "starfield \<Rightarrow> starfield" where
  "initStars s = pushStars (opt_starCount (options s)) (s\<lparr>stars := []\<rparr>)"

definition projectX :: "starfield \<Rightarrow> real \<Rightarrow> real \<Rightarrow> real" where
  "projectX s x z = map_js (x / z) 0 1 0 (width s / 2) + centerX s"

definition projectY :: "starfield \<Rightarrow> real \<Rightarrow> real \<Rightarrow> real" where
  "projectY s y z = map_js (y / z) 0 1 0 (height s / 2) + centerY s"

definition isOffscreen :: "starfield \<Rightarrow> real \<Rightarrow> real \<Rightarrow> bool" where
  "isOffscreen s x y = (x < 0 \<or> x > width s \<or> y < 0 \<or> y > height s)"

definition updateStar :: "starfield \<Rightarrow> star \<Rightarrow> real \<Rightarrow> bool \<times> star \<times> starfield" where
  "updateStar s st frameScale =
     (let st1 = st\<lparr>star_z := star_z st - opt_speed (options s) * speedMultiplier s * frameScale\<rparr>
      in if star_z st1 < 1
         then (let (st2, s') = resetStar s st1 False in (False, st2, s'))
         else (let sx = projectX s (star_x st1) (star_z st1);
                   sy = projectY s (star_y st1) (star_z st1)
               in if isOffscreen s sx sy
                  then (let (st2, s') = resetStar s st1 False in (False, st2, s'))
                  else (True, st1, s)))"

definition drawStar :: "starfield \<Rightarrow> star \<Rightarrow> star \<times> starfield" where
  "drawStar s st =
     (let sx = projectX s (star_x st) (star_z st);
          sy = projectY s (star_y st) (star_z st);
          trailZ = min (maxDepth s) (star_pz st + trailLength s);
          px = projectX s (star_x st) trailZ;
          py = projectY s (star_y st) trailZ;
          lineWidth = clamp (map_js (star_z st) 0 (maxDepth s) 3 0) (1 / 10) 3;
          s' = s\<lparr>ctxLog := ctxLog s @ [Stroke (opt_starColor (options s)) lineWidth px py sx sy]\<rparr>
      in (st\<lparr>star_pz := star_z st\<rparr>, s'))"

subsection \<open>Resize\<close>

fun resetStars :: "starfield \<Rightarrow> star list \<Rightarrow> star list \<times> starfield" where
  "resetStars s [] = ([], s)"
| "resetStars s (st # rest) =
     (let (st', s1) = resetStar s st True;
          (rest', s2) = resetStars s1 rest
      in (st' # rest', s2))"

text \<open>
  The size that \<^verbatim>\<open>resize\<close> measures (lines 339 to 346): the window in full-page mode, else
  the bounding box of the target, rounded down and at least 1.
\<close>

definition measureSize :: "env \<Rightarrow> starfield \<Rightarrow> real \<times> real" where
  "measureSize g s =
     (if fullPage s then (innerWidth g, innerHeight g)
      else (let (rw, rh) = boundingRect g (target s)
            in (max 1 (of_int \<lfloor>rw\<rfloor>), max 1 (of_int \<lfloor>rh\<rfloor>))))"

definition resize :: "env \<Rightarrow> starfield \<Rightarrow> starfield" where
  "resize g s =
     (let (w, h) = measureSize g s;
          s1 = s\<lparr>width := w, height := h, centerX := w / 2, centerY := h / 2,
                 maxDepth := max w h\<rparr>;
          mobile = isMobileViewport g s1;
          s2 = s1\<lparr>speedMultiplier :=
                     (if mobile then opt_mobileSpeedMultiplier (options s1)
                      else opt_desktopSpeedMultiplier (options s1)),
                  trailLength := opt_trailLength (options s1) *
                     (if mobile then opt_mobileTrailMultiplier (options s1)
                      else opt_desktopTrailMultiplier (options s1))\<rparr>;
          dpr = getDpr g s2;
          s3 = s2\<lparr>canvasWidth := of_int \<lfloor>w * dpr\<rfloor>, canvasHeight := of_int \<lfloor>h * dpr\<rfloor>,
                  ctxLog := ctxLog s2 @ [SetTransform dpr]\<rparr>;
          (stars', s4) = resetStars s3 (stars s3)
      in s4\<lparr>stars := stars'\<rparr>)"

subsection \<open>The animation loop\<close>

text \<open>The body of the loop over the stars in \<^verbatim>\<open>animate\<close>: update, and draw if drawable.\<close>

definition stepStar :: "starfield \<Rightarrow> real \<Rightarrow> star \<Rightarrow> star \<times> starfield" where
  "stepStar s frameScale st =
     (let (drawable, st1, s1) = updateStar s st frameScale
      in if drawable then drawStar s1 st1 else (st1, s1))"

fun animateStars :: "starfield \<Rightarrow> real \<Rightarrow> star list \<Rightarrow> star list \<times> starfield" where
  "animateStars s frameScale [] = ([], s)"
| "animateStars s frameScale (st # rest) =
     (let (st', s1) = stepStar s frameScale st;
          (rest', s2) = animateStars s1 frameScale rest
      in (st' # rest', s2))"

text \<open>
  One full pass of a tick for a given \<open>frameScale\<close>: paint the background, then update and
  draw every star (lines 390 to 400 of the source).
\<close>

definition animateFrame :: "starfield \<Rightarrow> real \<Rightarrow> starfield" where
  "animateFrame s frameScale =
     (let s1 = s\<lparr>ctxLog := ctxLog s @
                   [FillRect (opt_backgroundColor (options s)) 0 0 (width s) (height s)]\<rparr>;
          (stars', s2) = animateStars s1 frameScale (stars s1)
      in s2\<lparr>stars := stars'\<rparr>)"

text \<open>
  The timing of a tick (lines 379 to 388): \<^verbatim>\<open>lastTime\<close> is unset when it is falsy, that is
  \<open>0\<close>, and is then taken to be the timestamp.
\<close>

definition deltaMs :: "starfield \<Rightarrow> real \<Rightarrow> real" where
  "deltaMs s timestamp =
     (let last = (if lastTime s = 0 then timestamp else lastTime s)
      in min 64 (timestamp - last))"

definition frameScale_of :: "starfield \<Rightarrow> real \<Rightarrow> real" where
  "frameScale_of s timestamp = deltaMs s timestamp / (1000 / 60)"

definition animate :: "starfield \<Rightarrow> real \<Rightarrow> starfield" where
  "animate s timestamp =
     (if \<not> running s then s
      else (let frameScale = frameScale_of s timestamp;
                s1 = s\<lparr>lastTime := timestamp\<rparr>;
                s2 = animateFrame s1 frameScale;
                (h, s3) = requestAnimationFrame s2
            in s3\<lparr>rafId := Some h\<rparr>))"

definition start :: "starfield \<Rightarrow> starfield" where
  "start s =
     (if running s then s
      else (let s1 = s\<lparr>running := True, lastTime := 0\<rparr>;
                (h, s2) = requestAnimationFrame s1
            in s2\<lparr>rafId := Some h\<rparr>))"

definition stop :: "starfield \<Rightarrow> starfield" where
  "stop s =
     (if \<not> running s then s
      else (let s1 = s\<lparr>running := False\<rparr>
            in (case rafId s1 of
                  None \<Rightarrow> s1
                | Some h \<Rightarrow> (cancelAnimationFrame h s1)\<lparr>rafId := None\<rparr>)))"

text \<open>
  The platform runs the oldest pending frame callback: it leaves the pending list and
  \<^verbatim>\<open>animate\<close> is called with the timestamp.
\<close>

definition fireFrame :: "starfield \<Rightarrow> real \<Rightarrow> starfield" where
  "fireFrame s timestamp =
     (case rafPending s of
        [] \<Rightarrow> s
      | h # hs \<Rightarrow> animate (s\<lparr>rafPending := hs\<rparr>) timestamp)"

subsection \<open>The constructor\<close>

text \<open>
  \<open>Starfield g rnd ou\<close> is \<^verbatim>\<open>new Starfield(options)\<close> in the environment \<open>g\<close>, with \<open>rnd\<close>
  the values \<^verbatim>\<open>Math.random()\<close> will return. The two \<^verbatim>\<open>throw\<close>s are the \<open>Inl\<close> results.
\<close>

text \<open>
  Lines 109 to 113: an own property \<^verbatim>\<open>fullPage\<close> of the caller's object is coerced to a
  boolean; without one, the mode is detected from the target.
\<close>

definition detectFullPage :: "user_options option \<Rightarrow> element \<Rightarrow> bool" where
  "detectFullPage ou tgt =
     (case ou of
        None \<Rightarrow> (tgt = Body \<or> tgt = DocumentElement)
      | Some u \<Rightarrow>
          (case u_fullPage u of
             Some v \<Rightarrow> truthy v
           | None \<Rightarrow> (tgt = Body \<or> tgt = DocumentElement)))"

definition Starfield :: "env \<Rightarrow> (nat \<Rightarrow> real) \<Rightarrow> user_options option \<Rightarrow> error + starfield" where
  "Starfield g rnd ou =
     (let os = assign_options ou in
      case resolveTarget g (opt_target os) of
        Inl e \<Rightarrow> Inl e
      | Inr tgt \<Rightarrow>
         (let fp = detectFullPage ou tgt
          in if \<not> context2d g then Inl NoContext
             else (let s0 = \<lparr> options = os, target = tgt, fullPage = fp, stars = [],
                               width = 0, height = 0, centerX = 0, centerY = 0, maxDepth = 0,
                               speedMultiplier = opt_desktopSpeedMultiplier os,
                               trailLength = opt_trailLength os * opt_desktopTrailMultiplier os,
                               lastTime = 0, running = False, rafId = None,
                               canvasWidth = 0, canvasHeight = 0, ctxLog = [],
                               rafPending = [], rafNext = 0,
                               randomSeq = rnd, randomPos = 0 \<rparr>;
                       s1 = initStars s0;
                       s2 = resize g s1
                   in Inr (if opt_autostart os then start s2 else s2))))"

subsection \<open>Notions used by the statements\<close>

text \<open>
  The condition under which the specification recycles a star: after the decrement, the
  depth is below 1 or the projected position is off the screen.
\<close>

definition recycle_condition :: "starfield \<Rightarrow> star \<Rightarrow> real \<Rightarrow> bool" where
  "recycle_condition s st frameScale =
     (let z' = star_z st - opt_speed (options s) * speedMultiplier s * frameScale
      in z' < 1 \<or> isOffscreen s (projectX s (star_x st) z') (projectY s (star_y st) z'))"

text \<open>A sequence of ticks, given by the frame scale of each.\<close>

definition runFrames :: "starfield \<Rightarrow> real list \<Rightarrow> starfield" where
  "runFrames s frameScales = foldl animateFrame s frameScales"

subsection \<open>Concrete inputs\<close>

definition constant_random :: "real \<Rightarrow> nat \<Rightarrow> real" where
  "constant_random r n = r"

text \<open>
  A window of \<open>w \<times> h\<close> with a fine pointer and pixel ratio 1, in which every element has
  the bounding box \<open>rw \<times> rh\<close> and the selector \<^verbatim>\<open>#hero\<close> finds an element.
\<close>

definition example_env :: "real \<Rightarrow> real \<Rightarrow> real \<Rightarrow> real \<Rightarrow> env" where
  "example_env w h rw rh =
     \<lparr> innerWidth = w, innerHeight = h, pointerCoarse = False, devicePixelRatio = Some 1,
       boundingRect = (\<lambda>e. (rw, rh)),
       querySelector = (\<lambda>sel. if sel = ''#hero'' then Some (Elem 0) else None),
       context2d = True \<rparr>"

text \<open>
  A running full-page instance in an \<open>800 \<times> 600\<close> window with the default options and
  two stars: one on the axis at depth 400, one near the viewer and far off the axis.
\<close>

definition axis_star :: star where
  "axis_star = \<lparr> star_x = 0, star_y = 0, star_z = 400, star_pz = 400 \<rparr>"

definition near_star :: star where
  "near_star = \<lparr> star_x = 1200, star_y = 0, star_z = 5, star_pz = 5 \<rparr>"

definition example_instance :: starfield where
  "example_instance =
     \<lparr> options = DEFAULTS\<lparr>opt_starCount := 2\<rparr>, target = Body, fullPage = True,
       stars = [axis_star, near_star],
       width = 800, height = 600, centerX = 400, centerY = 300, maxDepth = 800,
       speedMultiplier = 11 / 10, trailLength = 10, lastTime = 1000, running = True,
       rafId = Some 0, canvasWidth = 800, canvasHeight = 600, ctxLog = [],
       rafPending = [0], rafNext = 1, randomSeq = constant_random (1 / 2), randomPos = 6 \<rparr>"

text \<open>
  Two constructed instances in a \<open>1920 \<times> 1080\<close> window: one mounted on the element that
  \<^verbatim>\<open>#hero\<close> selects, whose box is \<open>500 \<times> 800\<close>, with no \<^verbatim>\<open>fullPage\<close> option, and one
  constructed without options.
\<close>

definition hero_options :: user_options where
  "hero_options = no_options\<lparr>u_target := Some (TSelector ''#hero''), u_starCount := Some 1\<rparr>"

definition container_instance :: starfield where
  "container_instance =
     projr (Starfield (example_env 1920 1080 500 800) (constant_random (3 / 4))
       (Some hero_options))"

definition body_instance :: starfield where
  "body_instance = projr (Starfield (example_env 1920 1080 500 800) (constant_random (3 / 4)) None)"

text \<open>A display of pixel ratio 3, and the example instance with a given \<^verbatim>\<open>dprCap\<close>.\<close>

definition dense_env :: env where
  "dense_env = (example_env 800 600 0 0)\<lparr>devicePixelRatio := Some 3\<rparr>"

definition with_dprCap :: "jsval \<Rightarrow> starfield" where
  "with_dprCap v = example_instance\<lparr>options := (options example_instance)\<lparr>opt_dprCap := v\<rparr>\<rparr>"

text \<open>
  An instance constructed with the default options (and one star) in a window of size
  \<open>0 \<times> 0\<close>; an instance whose \<^verbatim>\<open>speed\<close> option is negative, with one star at the maximum
  depth; and an instance whose \<^verbatim>\<open>speed\<close> is 0, with one given star.
\<close>

definition one_star_options :: user_options where
  "one_star_options = no_options\<lparr>u_starCount := Some 1\<rparr>"

definition collapsed_instance :: starfield where
  "collapsed_instance =
     projr (Starfield (example_env 0 0 0 0) (constant_random (1 / 2)) (Some one_star_options))"

definition far_star :: star where
  "far_star = \<lparr> star_x = 0, star_y = 0, star_z = 800, star_pz = 800 \<rparr>"

definition receding_instance :: starfield where
  "receding_instance =
     example_instance\<lparr>options := (options example_instance)\<lparr>opt_speed := - 10\<rparr>,
       stars := [far_star]\<rparr>"

definition shallow_star :: star where
  "shallow_star = \<lparr> star_x = 0, star_y = 0, star_z = 1 / 2, star_pz = 1 / 2 \<rparr>"

definition still_instance :: "star \<Rightarrow> starfield" where
  "still_instance st =
     example_instance\<lparr>options := (options example_instance)\<lparr>opt_speed := 0, opt_starCount := 1\<rparr>,
       stars := [st], randomSeq := constant_random (3 / 4)\<rparr>"

section \<open>Properties\<close>

subsection \<open>What each operation changes\<close>

lemma resetStar_recycle:
  "resetStar s st False =
     (st\<lparr> star_x := (randomSeq s (randomPos s) * width s - width s / 2) * 2,
          star_y := (randomSeq s (Suc (randomPos s)) * height s - height s / 2) * 2,
          star_z := maxDepth s, star_pz := maxDepth s \<rparr>,
      s\<lparr>randomPos := Suc (Suc (randomPos s))\<rparr>)"
  by (simp add: resetStar_def random_def Let_def)

lemma resetStar_initial:
  "resetStar s st True =
     (st\<lparr> star_x := (randomSeq s (Suc (randomPos s)) * width s - width s / 2) * 2,
          star_y := (randomSeq s (Suc (Suc (randomPos s))) * height s - height s / 2) * 2,
          star_z := randomSeq s (randomPos s) * maxDepth s,
          star_pz := randomSeq s (randomPos s) * maxDepth s \<rparr>,
      s\<lparr>randomPos := Suc (Suc (Suc (randomPos s)))\<rparr>)"
  by (simp add: resetStar_def random_def Let_def)

lemma updateStar_recycled:
  "recycle_condition s st fs \<Longrightarrow>
   updateStar s st fs =
     (False,
      fst (resetStar s
        (st\<lparr>star_z := star_z st - opt_speed (options s) * speedMultiplier s * fs\<rparr>) False),
      s\<lparr>randomPos := Suc (Suc (randomPos s))\<rparr>)"
  by (auto simp add: updateStar_def recycle_condition_def Let_def resetStar_recycle)

lemma updateStar_alive:
  "\<not> recycle_condition s st fs \<Longrightarrow>
   updateStar s st fs =
     (True, st\<lparr>star_z := star_z st - opt_speed (options s) * speedMultiplier s * fs\<rparr>, s)"
  by (auto simp add: updateStar_def recycle_condition_def Let_def)

lemma stepStar_recycled:
  "recycle_condition s st fs \<Longrightarrow>
   stepStar s fs st =
     resetStar s
       (st\<lparr>star_z := star_z st - opt_speed (options s) * speedMultiplier s * fs\<rparr>) False"
  by (simp add: stepStar_def updateStar_recycled resetStar_recycle)

lemma stepStar_alive:
  "\<not> recycle_condition s st fs \<Longrightarrow>
   stepStar s fs st =
     drawStar s (st\<lparr>star_z := star_z st - opt_speed (options s) * speedMultiplier s * fs\<rparr>)"
  by (simp add: stepStar_def updateStar_alive)

lemma stepStar_pz: "star_pz (fst (stepStar s fs st)) = star_z (fst (stepStar s fs st))"
  by (cases "recycle_condition s st fs")
     (simp_all add: stepStar_recycled stepStar_alive resetStar_recycle drawStar_def Let_def)

text \<open>A step writes to the drawing log and consumes random numbers, and nothing else.\<close>

lemma stepStar_frame:
  "snd (stepStar s fs st) =
     s\<lparr>ctxLog := ctxLog (snd (stepStar s fs st)),
       randomPos := randomPos (snd (stepStar s fs st))\<rparr>"
  by (cases "recycle_condition s st fs")
     (simp_all add: stepStar_recycled stepStar_alive resetStar_recycle drawStar_def Let_def)

lemma stepStar_fields:
  "options (snd (stepStar s fs st)) = options s"
  "width (snd (stepStar s fs st)) = width s"
  "height (snd (stepStar s fs st)) = height s"
  "centerX (snd (stepStar s fs st)) = centerX s"
  "centerY (snd (stepStar s fs st)) = centerY s"
  "maxDepth (snd (stepStar s fs st)) = maxDepth s"
  "speedMultiplier (snd (stepStar s fs st)) = speedMultiplier s"
  "trailLength (snd (stepStar s fs st)) = trailLength s"
  by (subst stepStar_frame, simp)+

lemma animateStars_frame:
  "snd (animateStars s fs xs) =
     s\<lparr>ctxLog := ctxLog (snd (animateStars s fs xs)),
       randomPos := randomPos (snd (animateStars s fs xs))\<rparr>"
proof (induction xs arbitrary: s)
  case Nil
  show ?case by simp
next
  case (Cons st rest)
  let ?s1 = "snd (stepStar s fs st)"
  have a: "snd (animateStars s fs (st # rest)) = snd (animateStars ?s1 fs rest)"
    by (simp add: split_beta Let_def)
  have "snd (animateStars ?s1 fs rest) =
      ?s1\<lparr>ctxLog := ctxLog (snd (animateStars ?s1 fs rest)),
          randomPos := randomPos (snd (animateStars ?s1 fs rest))\<rparr>"
    by (rule Cons.IH)
  also have "\<dots> = s\<lparr>ctxLog := ctxLog (snd (animateStars ?s1 fs rest)),
          randomPos := randomPos (snd (animateStars ?s1 fs rest))\<rparr>"
    by (subst stepStar_frame) simp
  finally show ?case by (simp only: a)
qed

lemma animateFrame_frame:
  "animateFrame s fs =
     s\<lparr>stars := stars (animateFrame s fs), ctxLog := ctxLog (animateFrame s fs),
       randomPos := randomPos (animateFrame s fs)\<rparr>"
  unfolding animateFrame_def Let_def split_beta
  by (subst animateStars_frame) simp

lemma animateFrame_stars:
  "stars (animateFrame s fs) =
     fst (animateStars
       (s\<lparr>ctxLog := ctxLog s @
             [FillRect (opt_backgroundColor (options s)) 0 0 (width s) (height s)]\<rparr>)
       fs (stars s))"
  by (simp add: animateFrame_def Let_def split_beta)

lemma animate_running:
  "running s \<Longrightarrow> animate s t =
     (animateFrame (s\<lparr>lastTime := t\<rparr>) (frameScale_of s t))
       \<lparr>rafPending := rafPending s @ [rafNext s], rafNext := Suc (rafNext s),
        rafId := Some (rafNext s)\<rparr>"
  apply (simp add: animate_def Let_def split_beta requestAnimationFrame_def)
  apply (subst (1 2 3 4) animateFrame_frame)
  apply simp
  done

lemma animate_stars:
  "running s \<Longrightarrow>
   stars (animate s t) = stars (animateFrame (s\<lparr>lastTime := t\<rparr>) (frameScale_of s t))"
  by (simp add: animate_running)

lemma resetStars_snd:
  "snd (resetStars s xs) = s\<lparr>randomPos := randomPos s + 3 * length xs\<rparr>"
  by (induction xs arbitrary: s) (simp_all add: split_beta Let_def resetStar_initial)

text \<open>A property that every step gives its star holds of the whole pool after the pass.\<close>

lemma animateStars_all:
  assumes "\<And>s st. P (fst (stepStar s fs st))"
  shows "\<forall>st \<in> set (fst (animateStars s fs xs)). P st"
  using assms by (induction xs arbitrary: s) (auto simp: split_beta Let_def)

lemma animateFrame_fields:
  "options (animateFrame s fs) = options s"
  "width (animateFrame s fs) = width s"
  "height (animateFrame s fs) = height s"
  "centerX (animateFrame s fs) = centerX s"
  "centerY (animateFrame s fs) = centerY s"
  "maxDepth (animateFrame s fs) = maxDepth s"
  "speedMultiplier (animateFrame s fs) = speedMultiplier s"
  "trailLength (animateFrame s fs) = trailLength s"
  "lastTime (animateFrame s fs) = lastTime s"
  "running (animateFrame s fs) = running s"
  "rafId (animateFrame s fs) = rafId s"
  "rafPending (animateFrame s fs) = rafPending s"
  "rafNext (animateFrame s fs) = rafNext s"
  by (subst animateFrame_frame, simp)+

lemma frameScale_nonneg:
  "lastTime s = 0 \<or> lastTime s \<le> t \<Longrightarrow> 0 \<le> frameScale_of s t"
  by (auto simp add: frameScale_of_def deltaMs_def Let_def)

lemma start_stop_state:
  "running (start (stop s))" "lastTime (start (stop s)) = 0"
  "rafPending (start (stop s)) \<noteq> []"
  by (simp_all add: start_def stop_def Let_def split_beta
      requestAnimationFrame_def cancelAnimationFrame_def split: option.split)

lemma pushStars_frame:
  "pushStars n s = s\<lparr>stars := stars (pushStars n s), randomPos := randomPos (pushStars n s)\<rparr>"
proof (induction n arbitrary: s)
  case 0
  show ?case by simp
next
  case (Suc n)
  let ?s1 = "(snd (createStar s True))\<lparr>stars := stars (snd (createStar s True)) @ [fst (createStar s True)]\<rparr>"
  have a: "pushStars (Suc n) s = pushStars n ?s1"
    by (simp add: split_beta Let_def)
  have b: "?s1 = s\<lparr>stars := stars ?s1, randomPos := randomPos ?s1\<rparr>"
    by (simp add: createStar_def resetStar_initial)
  have "pushStars n ?s1 = ?s1\<lparr>stars := stars (pushStars n ?s1), randomPos := randomPos (pushStars n ?s1)\<rparr>"
    by (rule Suc.IH)
  also have "\<dots> = s\<lparr>stars := stars (pushStars n ?s1), randomPos := randomPos (pushStars n ?s1)\<rparr>"
    by (subst b) simp
  finally show ?case by (simp only: a)
qed

lemma initStars_frame:
  "initStars s = s\<lparr>stars := stars (initStars s), randomPos := randomPos (initStars s)\<rparr>"
  unfolding initStars_def
  by (subst pushStars_frame) simp

lemma initStars_fields:
  "options (initStars s) = options s"
  "target (initStars s) = target s"
  "fullPage (initStars s) = fullPage s"
  "running (initStars s) = running s"
  "randomSeq (initStars s) = randomSeq s"
  by (subst initStars_frame, simp)+

lemma resize_fields:
  "options (resize g s) = options s"
  "target (resize g s) = target s"
  "fullPage (resize g s) = fullPage s"
  "running (resize g s) = running s"
  "lastTime (resize g s) = lastTime s"
  "rafId (resize g s) = rafId s"
  "rafPending (resize g s) = rafPending s"
  "rafNext (resize g s) = rafNext s"
  "randomSeq (resize g s) = randomSeq s"
  by (simp_all add: resize_def Let_def split_beta resetStars_snd)

lemma resize_viewport:
  "width (resize g s) = fst (measureSize g s)"
  "height (resize g s) = snd (measureSize g s)"
  "centerX (resize g s) = width (resize g s) / 2"
  "centerY (resize g s) = height (resize g s) / 2"
  "maxDepth (resize g s) = max (width (resize g s)) (height (resize g s))"
  by (simp_all add: resize_def Let_def split_beta resetStars_snd)

lemma resize_multipliers:
  "speedMultiplier (resize g s) =
     (if isMobileViewport g s then opt_mobileSpeedMultiplier (options s)
      else opt_desktopSpeedMultiplier (options s))"
  "trailLength (resize g s) = opt_trailLength (options s) *
     (if isMobileViewport g s then opt_mobileTrailMultiplier (options s)
      else opt_desktopTrailMultiplier (options s))"
  by (simp_all add: resize_def Let_def split_beta resetStars_snd isMobileViewport_def)

lemma start_fields:
  "options (start s) = options s"
  "target (start s) = target s"
  "fullPage (start s) = fullPage s"
  "stars (start s) = stars s"
  "width (start s) = width s"
  "height (start s) = height s"
  "centerX (start s) = centerX s"
  "centerY (start s) = centerY s"
  "maxDepth (start s) = maxDepth s"
  "speedMultiplier (start s) = speedMultiplier s"
  "trailLength (start s) = trailLength s"
  by (simp_all add: start_def Let_def split_beta requestAnimationFrame_def)

lemma measureSize_cong:
  "fullPage s = fullPage s' \<Longrightarrow> target s = target s' \<Longrightarrow> measureSize g s = measureSize g s'"
  by (simp add: measureSize_def)

lemma isMobileViewport_cong:
  "options s = options s' \<Longrightarrow> isMobileViewport g s = isMobileViewport g s'"
  by (simp add: isMobileViewport_def)

lemma getDpr_cases:
  "getDpr g s =
     (case opt_dprCap (options s) of
        JNum c \<Rightarrow> if 0 < c then min (nativeDpr g) c else nativeDpr g
      | _ \<Rightarrow> nativeDpr g)"
  by (simp add: getDpr_def Let_def split: jsval.split)

subsection \<open>The constructor\<close>

lemma Starfield_Inr:
  assumes "Starfield g rnd ou = Inr s"
  shows "options s = assign_options ou"
    and "resolveTarget g (opt_target (assign_options ou)) = Inr (target s)"
    and "fullPage s = detectFullPage ou (target s)"
    and "width s = fst (measureSize g s)"
    and "height s = snd (measureSize g s)"
    and "speedMultiplier s =
          (if isMobileViewport g s then opt_mobileSpeedMultiplier (options s)
           else opt_desktopSpeedMultiplier (options s))"
    and "context2d g"
proof -
  obtain tgt where t: "resolveTarget g (opt_target (assign_options ou)) = Inr tgt"
    using assms by (cases "resolveTarget g (opt_target (assign_options ou))")
      (simp_all add: Starfield_def Let_def)
  show c: "context2d g"
    using assms t by (simp add: Starfield_def Let_def split: if_splits)
  define s0 where "s0 = \<lparr> options = assign_options ou, target = tgt,
      fullPage = detectFullPage ou tgt, stars = [],
      width = 0, height = 0, centerX = 0, centerY = 0, maxDepth = 0,
      speedMultiplier = opt_desktopSpeedMultiplier (assign_options ou),
      trailLength = opt_trailLength (assign_options ou) *
        opt_desktopTrailMultiplier (assign_options ou),
      lastTime = 0, running = False, rafId = None,
      canvasWidth = 0, canvasHeight = 0, ctxLog = [],
      rafPending = [], rafNext = 0, randomSeq = rnd, randomPos = 0 \<rparr>"
  define s2 where "s2 = resize g (initStars s0)"
  have s: "s = (if opt_autostart (assign_options ou) then start s2 else s2)"
    using assms t c by (auto simp add: Starfield_def Let_def s0_def s2_def)
  have f: "options s = options s0" "target s = target s0" "fullPage s = fullPage s0"
    by (simp_all add: s s2_def start_fields resize_fields initStars_fields)
  have v: "width s = width s2" "height s = height s2" "speedMultiplier s = speedMultiplier s2"
    by (simp_all add: s start_fields)
  have m: "measureSize g s = measureSize g (initStars s0)"
    by (rule measureSize_cong) (simp_all add: f initStars_fields)
  have i: "isMobileViewport g s = isMobileViewport g (initStars s0)"
    by (rule isMobileViewport_cong) (simp add: f initStars_fields)
  show "options s = assign_options ou" by (simp add: f s0_def)
  show "resolveTarget g (opt_target (assign_options ou)) = Inr (target s)"
    by (simp add: f t s0_def)
  show "fullPage s = detectFullPage ou (target s)" by (simp add: f s0_def)
  show "width s = fst (measureSize g s)" by (simp add: v m s2_def resize_viewport)
  show "height s = snd (measureSize g s)" by (simp add: v m s2_def resize_viewport)
  show "speedMultiplier s =
          (if isMobileViewport g s then opt_mobileSpeedMultiplier (options s)
           else opt_desktopSpeedMultiplier (options s))"
    by (simp add: v i f s2_def resize_multipliers initStars_fields)
qed

lemma Starfield_isl:
  "isl (Starfield g rnd ou) =
     (isl (resolveTarget g (opt_target (assign_options ou))) \<or> \<not> context2d g)"
  by (simp add: Starfield_def Let_def split: sum.split)

subsection \<open>The concrete inputs\<close>

text \<open>The equations that evaluate a tick on a concrete instance.\<close>

lemmas eval_defs =
  animate_def animateFrame_def stepStar_def updateStar_def resetStar_def random_def
  drawStar_def projectX_def projectY_def isOffscreen_def map_js_def clamp_def Let_def
  frameScale_of_def deltaMs_def requestAnimationFrame_def runFrames_def
  example_instance_def DEFAULTS_def constant_random_def

lemma hero_options_assign:
  "assign_options (Some hero_options) =
     DEFAULTS\<lparr>opt_target := TSelector ''#hero'', opt_starCount := 1\<rparr>"
  by (simp add: assign_options_def hero_options_def no_options_def pick_def DEFAULTS_def)

lemma container_instance_Inr:
  "Starfield (example_env 1920 1080 500 800) (constant_random (3 / 4)) (Some hero_options)
     = Inr container_instance"
proof -
  have "\<not> isl (Starfield (example_env 1920 1080 500 800) (constant_random (3 / 4))
       (Some hero_options))"
    by (simp add: Starfield_isl hero_options_assign resolveTarget_def example_env_def)
  then show ?thesis
    by (simp add: container_instance_def)
qed

lemma container_instance_fields:
  "target container_instance = Elem 0"
  "fullPage container_instance = False"
  "width container_instance = 500"
  "height container_instance = 800"
  "speedMultiplier container_instance = 11 / 10"
  "opt_mobileSpeedMultiplier (options container_instance) = 1 / 2"
  "opt_desktopSpeedMultiplier (options container_instance) = 11 / 10"
  "opt_mobileBreakpoint (options container_instance) = 900"
  "opt_fullPage (options container_instance) = JBool True"
proof -
  note r = Starfield_Inr [OF container_instance_Inr]
  have o: "options container_instance =
      DEFAULTS\<lparr>opt_target := TSelector ''#hero'', opt_starCount := 1\<rparr>"
    by (simp add: r(1) hero_options_assign)
  show t: "target container_instance = Elem 0"
    using r(2) by (simp add: hero_options_assign resolveTarget_def example_env_def)
  show f: "fullPage container_instance = False"
    by (simp add: r(3) t detectFullPage_def hero_options_def no_options_def)
  have m: "measureSize (example_env 1920 1080 500 800) container_instance = (500, 800)"
    by (simp add: measureSize_def f example_env_def)
  show "width container_instance = 500" "height container_instance = 800"
    by (simp_all add: r(4,5) m)
  show "opt_mobileSpeedMultiplier (options container_instance) = 1 / 2"
    "opt_desktopSpeedMultiplier (options container_instance) = 11 / 10"
    "opt_mobileBreakpoint (options container_instance) = 900"
    "opt_fullPage (options container_instance) = JBool True"
    by (simp_all add: o DEFAULTS_def)
  show "speedMultiplier container_instance = 11 / 10"
    by (simp add: r(6) isMobileViewport_def o DEFAULTS_def example_env_def)
qed

lemma body_instance_Inr:
  "Starfield (example_env 1920 1080 500 800) (constant_random (3 / 4)) None = Inr body_instance"
proof -
  have "\<not> isl (Starfield (example_env 1920 1080 500 800) (constant_random (3 / 4)) None)"
    by (simp add: Starfield_isl assign_options_def no_options_def pick_def DEFAULTS_def
        resolveTarget_def example_env_def)
  then show ?thesis
    by (simp add: body_instance_def)
qed

lemma body_instance_target: "target body_instance = Body"
  using Starfield_Inr(2) [OF body_instance_Inr]
  by (simp add: assign_options_def no_options_def pick_def DEFAULTS_def resolveTarget_def)

lemma example_instance_fields:
  "maxDepth example_instance = 800"
  "ctxLog example_instance = []"
  "opt_speed (options example_instance) = 10"
  "speedMultiplier example_instance = 11 / 10"
  "lastTime example_instance = 1000"
  by (simp_all add: example_instance_def DEFAULTS_def)

lemma example_instance_lastTime: "lastTime example_instance \<noteq> 0"
  by (simp add: example_instance_def)

lemma near_star_recycles: "recycle_condition example_instance near_star 1"
  by (simp add: recycle_condition_def example_instance_def near_star_def DEFAULTS_def)

lemma axis_star_alive: "\<not> recycle_condition example_instance axis_star 1"
  by (simp add: recycle_condition_def example_instance_def axis_star_def DEFAULTS_def
      isOffscreen_def projectX_def projectY_def map_js_def)

lemma example_instance_running: "running example_instance"
  by (simp add: example_instance_def)

subsection \<open>The trail anchor\<close>

text \<open>
  Claim C10. After every completed tick (a call of \<^verbatim>\<open>animate\<close> on a running instance),
  every star of the pool has \<open>pz = z\<close>: \<^verbatim>\<open>drawStar\<close> ends by storing \<open>z\<close> in \<open>pz\<close>, and a
  recycled star gets both from \<^verbatim>\<open>resetStar\<close>.
\<close>

theorem pz_equals_z_after_tick:
  "running s \<Longrightarrow> \<forall>st \<in> set (stars (animate s timestamp)). star_pz st = star_z st"
  by (simp only: animate_stars animateFrame_stars) (rule animateStars_all, rule stepStar_pz)

theorem pz_equals_z_after_tick_witness:
  "running example_instance \<and>
   map star_pz (stars (animate example_instance 1016)) =
     map star_z (stars (animate example_instance 1016))"
  using pz_equals_z_after_tick [OF example_instance_running, of 1016]
    example_instance_running
  by simp

subsection \<open>The step of one star\<close>

text \<open>
  Claim C2. In the step of one star with a given frame scale, with
  \<open>z' = z - speed * speedMultiplier * frameScale\<close>: \<^verbatim>\<open>updateStar\<close> reports the star as
  drawable exactly when the recycle condition (\<open>z' < 1\<close>, or the projection of the star at
  \<open>z'\<close> is off the screen) does not hold. When it holds, the step is \<^verbatim>\<open>resetStar\<close> with
  \<^verbatim>\<open>initial = false\<close>: the star gets \<open>z = pz = maxDepth\<close>, two random numbers are consumed
  for \<open>x\<close> and \<open>y\<close>, and nothing is drawn. When it does not hold, the star keeps its
  position with depth \<open>z'\<close>, no random number is consumed, and the step draws it.
\<close>

theorem updateStar_recycles_iff:
  "(fst (updateStar s st fs) = (\<not> recycle_condition s st fs)) \<and>
   (recycle_condition s st fs \<longrightarrow>
      stepStar s fs st =
        resetStar s (st\<lparr>star_z := star_z st - opt_speed (options s) * speedMultiplier s * fs\<rparr>) False \<and>
      star_z (fst (snd (updateStar s st fs))) = maxDepth s \<and>
      star_pz (fst (snd (updateStar s st fs))) = maxDepth s \<and>
      randomPos (snd (snd (updateStar s st fs))) = randomPos s + 2 \<and>
      ctxLog (snd (stepStar s fs st)) = ctxLog s) \<and>
   (\<not> recycle_condition s st fs \<longrightarrow>
      updateStar s st fs =
        (True, st\<lparr>star_z := star_z st - opt_speed (options s) * speedMultiplier s * fs\<rparr>, s) \<and>
      stepStar s fs st =
        drawStar s (st\<lparr>star_z := star_z st - opt_speed (options s) * speedMultiplier s * fs\<rparr>) \<and>
      length (ctxLog (snd (stepStar s fs st))) = Suc (length (ctxLog s)))"
proof (cases "recycle_condition s st fs")
  case True
  then show ?thesis
    by (simp add: updateStar_recycled stepStar_recycled resetStar_recycle)
next
  case False
  then show ?thesis
    by (simp add: updateStar_alive stepStar_alive drawStar_def Let_def)
qed

theorem updateStar_recycles_iff_witness:
  "recycle_condition example_instance near_star 1 \<and>
   fst (updateStar example_instance near_star 1) = False \<and>
   star_z (fst (snd (updateStar example_instance near_star 1))) = 800 \<and>
   star_pz (fst (snd (updateStar example_instance near_star 1))) = 800 \<and>
   ctxLog (snd (stepStar example_instance 1 near_star)) = [] \<and>
   \<not> recycle_condition example_instance axis_star 1 \<and>
   fst (updateStar example_instance axis_star 1) = True \<and>
   star_z (fst (snd (updateStar example_instance axis_star 1))) = 389 \<and>
   length (ctxLog (snd (stepStar example_instance 1 axis_star))) = 1"
proof -
  note r = updateStar_recycles_iff [of example_instance near_star 1]
  note a = updateStar_recycles_iff [of example_instance axis_star 1]
  have z: "star_z axis_star = 400"
    by (simp add: axis_star_def)
  from r near_star_recycles have
    "\<not> fst (updateStar example_instance near_star 1)"
    "star_z (fst (snd (updateStar example_instance near_star 1))) = maxDepth example_instance"
    "star_pz (fst (snd (updateStar example_instance near_star 1))) = maxDepth example_instance"
    "ctxLog (snd (stepStar example_instance 1 near_star)) = ctxLog example_instance"
    by blast+
  moreover from a axis_star_alive have
    "fst (updateStar example_instance axis_star 1)"
    "updateStar example_instance axis_star 1 =
       (True, axis_star\<lparr>star_z := star_z axis_star -
          opt_speed (options example_instance) * speedMultiplier example_instance * 1\<rparr>,
        example_instance)"
    "length (ctxLog (snd (stepStar example_instance 1 axis_star))) =
       Suc (length (ctxLog example_instance))"
    by blast+
  ultimately show ?thesis
    using near_star_recycles axis_star_alive by (simp add: example_instance_fields z)
qed

subsection \<open>Timing\<close>

text \<open>
  Claim C3. On a tick with timestamp \<open>t\<close> and a set \<^verbatim>\<open>lastTime\<close> (one that is not \<open>0\<close>),
  \<open>deltaMs = min(64, t - lastTime)\<close> and \<open>frameScale = deltaMs / (1000 / 60)\<close>; a raw elapsed
  time of 5000 ms gives \<open>deltaMs = 64\<close> and \<open>frameScale = 3.84\<close>. The pass of the tick runs
  with this frame scale, and the tick stores \<open>t\<close> as the new \<^verbatim>\<open>lastTime\<close>.
\<close>

theorem tick_delta_clamped:
  "lastTime s \<noteq> 0 \<Longrightarrow>
     deltaMs s t = min 64 (t - lastTime s) \<and>
     frameScale_of s t = deltaMs s t / (1000 / 60) \<and>
     (t - lastTime s = 5000 \<longrightarrow> deltaMs s t = 64 \<and> frameScale_of s t = 384 / 100) \<and>
     (running s \<longrightarrow>
        stars (animate s t) =
          stars (animateFrame (s\<lparr>lastTime := t\<rparr>) (min 64 (t - lastTime s) / (1000 / 60))) \<and>
        lastTime (animate s t) = t)"
  by (simp add: animate_running animateFrame_fields deltaMs_def frameScale_of_def)

theorem tick_delta_clamped_witness:
  "lastTime example_instance \<noteq> 0 \<and> 6000 - lastTime example_instance = 5000 \<and>
   deltaMs example_instance 6000 = 64 \<and> frameScale_of example_instance 6000 = 384 / 100 \<and>
   deltaMs example_instance 1016 = 16 \<and>
   running example_instance \<and> lastTime (animate example_instance 6000) = 6000"
  using tick_delta_clamped [OF example_instance_lastTime, of 6000]
    tick_delta_clamped [OF example_instance_lastTime, of 1016]
    example_instance_running
  by (simp add: example_instance_fields)

text \<open>
  Claim C4. After \<^verbatim>\<open>stop()\<close> then \<^verbatim>\<open>start()\<close> the instance is running with \<^verbatim>\<open>lastTime\<close>
  cleared, so for every timestamp \<open>t\<close> the first tick computes \<open>deltaMs = 0\<close> and
  \<open>frameScale = 0\<close>: the frame callback that the platform runs next is one pass with frame
  scale \<open>0\<close>.
\<close>

theorem resume_delta_zero:
  "running (start (stop s)) \<and> lastTime (start (stop s)) = 0 \<and>
   deltaMs (start (stop s)) t = 0 \<and> frameScale_of (start (stop s)) t = 0 \<and>
   fireFrame (start (stop s)) t =
     (animateFrame
        ((start (stop s))\<lparr>rafPending := tl (rafPending (start (stop s))), lastTime := t\<rparr>) 0)
       \<lparr>rafPending := tl (rafPending (start (stop s))) @ [rafNext (start (stop s))],
        rafNext := Suc (rafNext (start (stop s))),
        rafId := Some (rafNext (start (stop s)))\<rparr>"
proof -
  let ?S = "start (stop s)"
  have d: "deltaMs (?S\<lparr>rafPending := hs\<rparr>) t = 0" for hs
    by (simp add: deltaMs_def start_stop_state)
  have f: "frameScale_of (?S\<lparr>rafPending := hs\<rparr>) t = 0" for hs
    by (simp add: frameScale_of_def d)
  have d0: "deltaMs ?S t = 0"
    by (simp add: deltaMs_def start_stop_state)
  obtain h hs where p: "rafPending ?S = h # hs"
    using start_stop_state(3) [of s] by (cases "rafPending ?S") auto
  have "fireFrame ?S t = animate (?S\<lparr>rafPending := hs\<rparr>) t"
    by (simp add: fireFrame_def p)
  also have "\<dots> = (animateFrame (?S\<lparr>rafPending := hs, lastTime := t\<rparr>) 0)
       \<lparr>rafPending := hs @ [rafNext ?S], rafNext := Suc (rafNext ?S), rafId := Some (rafNext ?S)\<rparr>"
    by (simp add: animate_running start_stop_state f)
  finally show ?thesis
    by (simp add: start_stop_state d0 frameScale_of_def p)
qed

theorem resume_delta_zero_witness:
  "running (start (stop example_instance)) \<and>
   lastTime (start (stop example_instance)) = 0 \<and>
   deltaMs (start (stop example_instance)) 123456 = 0 \<and>
   frameScale_of (start (stop example_instance)) 123456 = 0"
  using resume_delta_zero [of example_instance 123456] by blast

subsection \<open>Starting and stopping\<close>

text \<open>
  Claim C5. \<^verbatim>\<open>start()\<close> twice is \<^verbatim>\<open>start()\<close> once: from a stopped instance exactly one
  frame callback is added to the pending ones, and it is the one \<^verbatim>\<open>rafId\<close> names.
  \<^verbatim>\<open>stop()\<close> on a stopped instance changes nothing. \<^verbatim>\<open>stop()\<close> on a running instance
  clears \<^verbatim>\<open>running\<close> and \<^verbatim>\<open>rafId\<close>, removes the callback that \<^verbatim>\<open>rafId\<close> named from the
  pending ones and requests no new one; a callback that still runs afterwards does
  nothing.
\<close>

theorem start_stop_idempotent:
  "start (start s) = start s \<and>
   (\<not> running s \<longrightarrow>
      running (start s) \<and> rafId (start s) = Some (rafNext s) \<and>
      rafPending (start (start s)) = rafPending s @ [rafNext s]) \<and>
   (\<not> running s \<longrightarrow> stop s = s) \<and>
   (running s \<longrightarrow>
      \<not> running (stop s) \<and> rafId (stop s) = None \<and>
      (\<forall>h. rafId s = Some h \<longrightarrow> h \<notin> set (rafPending (stop s))) \<and>
      set (rafPending (stop s)) \<subseteq> set (rafPending s) \<and>
      rafNext (stop s) = rafNext s \<and>
      animate (stop s) t = stop s)"
  by (auto simp add: start_def stop_def Let_def split_beta animate_def
      requestAnimationFrame_def cancelAnimationFrame_def split: option.split)

theorem start_stop_idempotent_witness:
  "running example_instance \<and> \<not> running (stop example_instance) \<and>
   rafId (stop example_instance) = None \<and> rafPending (stop example_instance) = [] \<and>
   stop (stop example_instance) = stop example_instance \<and>
   start (start (stop example_instance)) = start (stop example_instance) \<and>
   rafPending (start (start (stop example_instance))) = [1] \<and>
   animate (stop example_instance) 1016 = stop example_instance"
proof -
  note r = start_stop_idempotent [of example_instance 1016]
  note n = start_stop_idempotent [of "stop example_instance" 1016]
  from r example_instance_running have a:
    "\<not> running (stop example_instance)" "rafId (stop example_instance) = None"
    "animate (stop example_instance) 1016 = stop example_instance"
    by blast+
  from n a(1) have b: "stop (stop example_instance) = stop example_instance"
    "start (start (stop example_instance)) = start (stop example_instance)"
    "rafPending (start (start (stop example_instance))) =
       rafPending (stop example_instance) @ [rafNext (stop example_instance)]"
    by blast+
  have c: "rafPending (stop example_instance) = []" "rafNext (stop example_instance) = 1"
    by (simp_all add: stop_def example_instance_def cancelAnimationFrame_def)
  from a b c example_instance_running show ?thesis
    by simp
qed

subsection \<open>Device class\<close>

text \<open>
  Claim C6, as amended. \<^verbatim>\<open>resize()\<close> classifies the device as mobile exactly when the
  pointer is coarse or the smaller side of the window, \<open>min(innerWidth, innerHeight)\<close>, is
  below \<^verbatim>\<open>mobileBreakpoint\<close>, and sets \<open>speedMultiplier\<close> and \<open>trailLength\<close> from the
  mobile or the desktop multipliers accordingly. In full-page mode the window's sides are
  the instance's \<open>width\<close> and \<open>height\<close>. With \<^verbatim>\<open>mobileBreakpoint = 900\<close> and a window of
  \<open>500 \<times> 800\<close> the speed multiplier is the mobile one.
\<close>

theorem resize_device_class:
  "speedMultiplier (resize g s) =
     (if pointerCoarse g \<or> min (innerWidth g) (innerHeight g) < opt_mobileBreakpoint (options s)
      then opt_mobileSpeedMultiplier (options s) else opt_desktopSpeedMultiplier (options s)) \<and>
   trailLength (resize g s) = opt_trailLength (options s) *
     (if pointerCoarse g \<or> min (innerWidth g) (innerHeight g) < opt_mobileBreakpoint (options s)
      then opt_mobileTrailMultiplier (options s) else opt_desktopTrailMultiplier (options s)) \<and>
   (fullPage s \<longrightarrow> width (resize g s) = innerWidth g \<and> height (resize g s) = innerHeight g) \<and>
   (opt_mobileBreakpoint (options s) = 900 \<and> innerWidth g = 500 \<and> innerHeight g = 800 \<longrightarrow>
      speedMultiplier (resize g s) = opt_mobileSpeedMultiplier (options s))"
  by (simp add: resize_multipliers resize_viewport isMobileViewport_def measureSize_def)

theorem resize_device_class_witness:
  "speedMultiplier (resize (example_env 500 800 0 0) example_instance) = 1 / 2 \<and>
   trailLength (resize (example_env 500 800 0 0) example_instance) = 13 / 2 \<and>
   width (resize (example_env 500 800 0 0) example_instance) = 500 \<and>
   height (resize (example_env 500 800 0 0) example_instance) = 800 \<and>
   speedMultiplier (resize (example_env 1920 1080 0 0) example_instance) = 11 / 10"
  using resize_device_class [of "example_env 500 800 0 0" example_instance]
    resize_device_class [of "example_env 1920 1080 0 0" example_instance]
  by (simp add: example_env_def example_instance_def DEFAULTS_def)

text \<open>
  The claim as stated, with the instance's \<open>width\<close> and \<open>height\<close>, fails in container mode:
  a \<open>500 \<times> 800\<close> container in a \<open>1920 \<times> 1080\<close> window with a fine pointer has
  \<open>min(width, height) = 500 < 900\<close> and is classified as desktop.
\<close>

theorem resize_device_class_counterexample:
  "\<not> pointerCoarse (example_env 1920 1080 500 800) \<and>
   width (resize (example_env 1920 1080 500 800) container_instance) = 500 \<and>
   height (resize (example_env 1920 1080 500 800) container_instance) = 800 \<and>
   opt_mobileBreakpoint (options (resize (example_env 1920 1080 500 800) container_instance))
     = 900 \<and>
   opt_mobileSpeedMultiplier (options (resize (example_env 1920 1080 500 800) container_instance))
     = 1 / 2 \<and>
   speedMultiplier (resize (example_env 1920 1080 500 800) container_instance) = 11 / 10"
  by (simp add: container_instance_fields example_env_def resize_multipliers resize_viewport
      resize_fields isMobileViewport_def measureSize_def)

subsection \<open>Pixel ratio\<close>

text \<open>
  Claim C7. \<^verbatim>\<open>getDpr\<close> yields \<open>min(nativeDpr, dprCap)\<close> for a cap that is a positive
  number (for \<^verbatim>\<open>Infinity\<close> that is the native ratio) and the native ratio for every other
  cap: one that is not a number, \<^verbatim>\<open>NaN\<close>, zero or negative. The native ratio is
  \<^verbatim>\<open>devicePixelRatio\<close>, or 1 when that is absent or zero. No value of \<^verbatim>\<open>dprCap\<close> makes
  the constructor fail: whether it throws does not depend on the cap.
\<close>

theorem getDpr_fallback:
  "(\<forall>c. opt_dprCap (options s) = JNum c \<and> 0 < c \<longrightarrow> getDpr g s = min (nativeDpr g) c) \<and>
   (opt_dprCap (options s) = JPosInf \<longrightarrow> getDpr g s = nativeDpr g) \<and>
   ((\<forall>c. opt_dprCap (options s) = JNum c \<longrightarrow> c \<le> 0) \<and> opt_dprCap (options s) \<noteq> JPosInf \<longrightarrow>
      getDpr g s = nativeDpr g) \<and>
   (devicePixelRatio g = None \<or> devicePixelRatio g = Some 0 \<longrightarrow> nativeDpr g = 1) \<and>
   (\<forall>d. devicePixelRatio g = Some d \<and> d \<noteq> 0 \<longrightarrow> nativeDpr g = d) \<and>
   isl (Starfield g rnd (Some (u\<lparr>u_dprCap := v\<rparr>))) = isl (Starfield g rnd (Some u))"
proof -
  have a: "opt_target (assign_options (Some (u\<lparr>u_dprCap := v\<rparr>))) =
      opt_target (assign_options (Some u))"
    by (simp add: assign_options_def)
  have b: "nativeDpr g = 1" if "devicePixelRatio g = None \<or> devicePixelRatio g = Some 0"
    using that by (auto simp add: nativeDpr_def)
  have c: "nativeDpr g = d" if "devicePixelRatio g = Some d" "d \<noteq> 0" for d
    using that by (simp add: nativeDpr_def)
  show ?thesis
    by (auto simp add: Starfield_isl a b c getDpr_cases split: jsval.split)
qed

theorem getDpr_fallback_witness:
  "getDpr dense_env (with_dprCap (JNum 2)) = 2 \<and>
   getDpr dense_env (with_dprCap (JNum 0)) = 3 \<and>
   getDpr dense_env (with_dprCap (JStr ''2'')) = 3 \<and>
   getDpr dense_env (with_dprCap JNaN) = 3 \<and>
   getDpr dense_env (with_dprCap JPosInf) = 3 \<and>
   getDpr (dense_env\<lparr>devicePixelRatio := None\<rparr>) (with_dprCap JUndefined) = 1"
proof -
  have n: "nativeDpr dense_env = 3" "nativeDpr (dense_env\<lparr>devicePixelRatio := None\<rparr>) = 1"
    by (simp_all add: nativeDpr_def dense_env_def example_env_def)
  have o: "opt_dprCap (options (with_dprCap v)) = v" for v
    by (simp add: with_dprCap_def)
  show ?thesis
    using getDpr_fallback [of "with_dprCap (JNum 2)" dense_env]
      getDpr_fallback [of "with_dprCap (JNum 0)" dense_env]
      getDpr_fallback [of "with_dprCap (JStr ''2'')" dense_env]
      getDpr_fallback [of "with_dprCap JNaN" dense_env]
      getDpr_fallback [of "with_dprCap JPosInf" dense_env]
      getDpr_fallback [of "with_dprCap JUndefined" "dense_env\<lparr>devicePixelRatio := None\<rparr>"]
    by (simp add: n o)
qed

subsection \<open>The default of fullPage\<close>

text \<open>
  Claim C8, as amended. When the caller supplies no \<^verbatim>\<open>fullPage\<close>, the merged options hold
  \<^verbatim>\<open>fullPage = true\<close>, but the mode of the instance is detected from the target: it is
  full-page exactly when the target is the body or the document element, and the instance
  is sized from the window then and from the target's bounding box otherwise.
\<close>

theorem fullPage_default_detected:
  assumes "Starfield g rnd ou = Inr s"
    and "ou = None \<or> (\<exists>u. ou = Some u \<and> u_fullPage u = None)"
  shows "fullPage s = (target s = Body \<or> target s = DocumentElement) \<and>
    opt_fullPage (options s) = JBool True \<and>
    width s = (if target s = Body \<or> target s = DocumentElement then innerWidth g
               else max 1 (of_int \<lfloor>fst (boundingRect g (target s))\<rfloor>)) \<and>
    height s = (if target s = Body \<or> target s = DocumentElement then innerHeight g
               else max 1 (of_int \<lfloor>snd (boundingRect g (target s))\<rfloor>))"
proof -
  note r = Starfield_Inr [OF assms(1)]
  have f: "fullPage s = (target s = Body \<or> target s = DocumentElement)"
    using assms(2) by (auto simp add: r(3) detectFullPage_def)
  have o: "opt_fullPage (options s) = JBool True"
    using assms(2)
    by (auto simp add: r(1) assign_options_def pick_def DEFAULTS_def no_options_def)
  show ?thesis
    by (simp add: f o r(4,5) measureSize_def split_beta)
qed

theorem fullPage_default_detected_witness:
  "Starfield (example_env 1920 1080 500 800) (constant_random (3 / 4)) None = Inr body_instance \<and>
   fullPage body_instance \<and> width body_instance = 1920 \<and> height body_instance = 1080 \<and>
   opt_fullPage (options body_instance) = JBool True"
  using fullPage_default_detected [OF body_instance_Inr] body_instance_Inr
  by (simp add: body_instance_target example_env_def)

text \<open>
  The claim as stated fails for a target that is neither: the instance mounted on
  \<^verbatim>\<open>#hero\<close> without a \<^verbatim>\<open>fullPage\<close> option is in container mode, \<open>500 \<times> 800\<close> in a window
  of \<open>1920 \<times> 1080\<close>.
\<close>

theorem fullPage_default_counterexample:
  "Starfield (example_env 1920 1080 500 800) (constant_random (3 / 4)) (Some hero_options)
     = Inr container_instance \<and>
   u_fullPage hero_options = None \<and>
   \<not> fullPage container_instance \<and>
   width container_instance = 500 \<and> height container_instance = 800 \<and>
   innerWidth (example_env 1920 1080 500 800) = 1920 \<and>
   innerHeight (example_env 1920 1080 500 800) = 1080"
proof -
  have "u_fullPage hero_options = None"
    by (simp add: hero_options_def no_options_def)
  moreover have "innerWidth (example_env 1920 1080 500 800) = 1920"
    "innerHeight (example_env 1920 1080 500 800) = 1080"
    by (simp_all add: example_env_def)
  ultimately show ?thesis
    using container_instance_Inr container_instance_fields by simp
qed

subsection \<open>Depth bounds\<close>

lemma stepStar_depth:
  assumes "0 < maxDepth s" and "0 \<le> opt_speed (options s) * speedMultiplier s * fs"
    and "star_z st \<le> maxDepth s"
  shows "0 < star_z (fst (stepStar s fs st)) \<and> star_z (fst (stepStar s fs st)) \<le> maxDepth s"
proof (cases "recycle_condition s st fs")
  case True
  then show ?thesis
    using assms(1) by (simp add: stepStar_recycled resetStar_recycle)
next
  case False
  then have "\<not> star_z st - opt_speed (options s) * speedMultiplier s * fs < 1"
    by (simp add: recycle_condition_def Let_def)
  with False assms(2,3) show ?thesis
    by (simp add: stepStar_alive drawStar_def Let_def)
qed

lemma animateStars_depth:
  assumes "0 < maxDepth s" and "0 \<le> opt_speed (options s) * speedMultiplier s * fs"
    and "\<forall>st \<in> set xs. star_z st \<le> maxDepth s"
  shows "\<forall>st \<in> set (fst (animateStars s fs xs)). 0 < star_z st \<and> star_z st \<le> maxDepth s"
  using assms
proof (induction xs arbitrary: s)
  case Nil
  show ?case by simp
next
  case (Cons x xs)
  let ?s1 = "snd (stepStar s fs x)"
  have h: "0 < star_z (fst (stepStar s fs x)) \<and> star_z (fst (stepStar s fs x)) \<le> maxDepth s"
    using Cons.prems by (intro stepStar_depth) simp_all
  have "\<forall>st \<in> set (fst (animateStars ?s1 fs xs)). 0 < star_z st \<and> star_z st \<le> maxDepth ?s1"
    using Cons.prems by (intro Cons.IH) (simp_all add: stepStar_fields)
  then have t: "\<forall>st \<in> set (fst (animateStars ?s1 fs xs)). 0 < star_z st \<and> star_z st \<le> maxDepth s"
    by (simp add: stepStar_fields)
  have e: "fst (animateStars s fs (x # xs)) = fst (stepStar s fs x) # fst (animateStars ?s1 fs xs)"
    by (simp add: split_beta Let_def)
  show ?case
    using h t by (simp only: e) simp
qed

text \<open>
  What \<^verbatim>\<open>resize\<close> leaves behind: with \<^verbatim>\<open>Math.random()\<close> at most 1 and a maximum depth that
  is not negative, no star is deeper than the maximum depth.
\<close>

lemma resetStars_depth:
  assumes "\<forall>n. randomSeq s n \<le> 1" and "0 \<le> maxDepth s"
  shows "\<forall>st \<in> set (fst (resetStars s xs)). star_z st \<le> maxDepth s"
  using assms
proof (induction xs arbitrary: s)
  case Nil
  show ?case by simp
next
  case (Cons x xs)
  let ?s1 = "snd (resetStar s x True)"
  have f: "maxDepth ?s1 = maxDepth s" "randomSeq ?s1 = randomSeq s"
    by (simp_all add: resetStar_initial)
  have "randomSeq s (randomPos s) * maxDepth s \<le> 1 * maxDepth s"
    using Cons.prems by (intro mult_right_mono) simp_all
  then have h: "star_z (fst (resetStar s x True)) \<le> maxDepth s"
    by (simp add: resetStar_initial)
  have "\<forall>st \<in> set (fst (resetStars ?s1 xs)). star_z st \<le> maxDepth ?s1"
    using Cons.prems by (intro Cons.IH) (simp_all add: f)
  then show ?case
    using h by (simp add: split_beta Let_def f)
qed

lemma resize_stars_ex:
  "\<exists>s3. stars (resize g s) = fst (resetStars s3 (stars s)) \<and>
      maxDepth s3 = maxDepth (resize g s) \<and> randomSeq s3 = randomSeq s"
  apply (simp add: resize_def Let_def split_beta resetStars_snd split del: if_split)
  apply (rule exI, rule conjI, rule refl, simp)
  done

lemma resize_depth:
  assumes "\<forall>n. randomSeq s n \<le> 1" and "0 \<le> maxDepth (resize g s)"
  shows "\<forall>st \<in> set (stars (resize g s)). star_z st \<le> maxDepth (resize g s)"
proof -
  obtain s3 where s3: "stars (resize g s) = fst (resetStars s3 (stars s))"
    "maxDepth s3 = maxDepth (resize g s)" "randomSeq s3 = randomSeq s"
    using resize_stars_ex by blast
  have "\<forall>st \<in> set (fst (resetStars s3 (stars s))). star_z st \<le> maxDepth s3"
    using assms by (intro resetStars_depth) (simp_all add: s3)
  then show ?thesis
    by (simp add: s3)
qed

text \<open>
  Claim C1, as amended. On a tick of a running instance with a frame scale that is not
  negative, if \<open>speed * speedMultiplier\<close> is not negative, the maximum depth is positive and
  every star enters the tick with \<open>z \<le> maxDepth\<close> (which \<^verbatim>\<open>resize\<close> establishes and this
  theorem maintains), then every star of the pool has \<open>0 < z \<le> maxDepth\<close> after the tick.
\<close>

theorem depth_bounds_after_tick:
  assumes "running s" and "0 \<le> frameScale_of s timestamp"
    and "0 \<le> opt_speed (options s) * speedMultiplier s"
    and "0 < maxDepth s"
    and "\<forall>st \<in> set (stars s). star_z st \<le> maxDepth s"
  shows "\<forall>st \<in> set (stars (animate s timestamp)).
           0 < star_z st \<and> star_z st \<le> maxDepth (animate s timestamp)"
proof -
  let ?s1 = "s\<lparr>lastTime := timestamp,
    ctxLog := ctxLog s @ [FillRect (opt_backgroundColor (options s)) 0 0 (width s) (height s)]\<rparr>"
  have m: "maxDepth (animate s timestamp) = maxDepth s"
    using assms(1) by (simp add: animate_running animateFrame_fields)
  have st: "stars (animate s timestamp) =
      fst (animateStars ?s1 (frameScale_of s timestamp) (stars s))"
    using assms(1) by (simp add: animate_stars animateFrame_stars)
  have "0 \<le> opt_speed (options ?s1) * speedMultiplier ?s1 * frameScale_of s timestamp"
    using assms(2,3) by simp
  moreover have "0 < maxDepth ?s1" "\<forall>st \<in> set (stars s). star_z st \<le> maxDepth ?s1"
    using assms(4,5) by simp_all
  ultimately have "\<forall>st \<in> set (fst (animateStars ?s1 (frameScale_of s timestamp) (stars s))).
      0 < star_z st \<and> star_z st \<le> maxDepth ?s1"
    by (intro animateStars_depth)
  then show ?thesis
    by (simp add: m st)
qed

theorem depth_bounds_after_tick_witness:
  "running example_instance \<and> 0 \<le> frameScale_of example_instance 1016 \<and>
   0 \<le> opt_speed (options example_instance) * speedMultiplier example_instance \<and>
   0 < maxDepth example_instance \<and>
   list_all (\<lambda>st. star_z st \<le> maxDepth example_instance) (stars example_instance) \<and>
   list_all (\<lambda>st. 0 < star_z st \<and> star_z st \<le> maxDepth (animate example_instance 1016))
     (stars (animate example_instance 1016))"
proof -
  have h: "running example_instance" "0 \<le> frameScale_of example_instance 1016"
    "0 \<le> opt_speed (options example_instance) * speedMultiplier example_instance"
    "0 < maxDepth example_instance"
    "\<forall>st \<in> set (stars example_instance). star_z st \<le> maxDepth example_instance"
    by (simp_all add: example_instance_def DEFAULTS_def frameScale_of_def deltaMs_def
        axis_star_def near_star_def)
  from depth_bounds_after_tick [OF h] h show ?thesis
    by (simp add: list_all_iff)
qed

text \<open>
  The claim as stated fails in two ways. With a negative \<^verbatim>\<open>speed\<close> a star recedes: from
  depth 800, the maximum, it reaches 811 in one 60 Hz frame and is drawn. In a window of
  size \<open>0 \<times> 0\<close> the maximum depth is 0, and with the default options the first tick
  recycles the star to depth 0.
\<close>

theorem depth_bounds_counterexample:
  "running receding_instance \<and>
   frameScale_of receding_instance (3050 / 3) = 1 \<and>
   map star_z (stars receding_instance) = [800] \<and>
   maxDepth (animate receding_instance (3050 / 3)) = 800 \<and>
   map star_z (stars (animate receding_instance (3050 / 3))) = [811] \<and>
   running collapsed_instance \<and>
   frameScale_of collapsed_instance 16 = 0 \<and>
   maxDepth (animate collapsed_instance 16) = 0 \<and>
   map star_z (stars (animate collapsed_instance 16)) = [0]"
proof -
  have a: "running receding_instance"
    "frameScale_of receding_instance (3050 / 3) = 1"
    "map star_z (stars receding_instance) = [800]"
    "maxDepth (animate receding_instance (3050 / 3)) = 800"
    "map star_z (stars (animate receding_instance (3050 / 3))) = [811]"
    by (simp_all add: receding_instance_def far_star_def eval_defs)
  have c: "collapsed_instance =
     \<lparr> options = DEFAULTS\<lparr>opt_starCount := 1\<rparr>, target = Body, fullPage = True,
       stars = [\<lparr> star_x = 0, star_y = 0, star_z = 0, star_pz = 0 \<rparr>],
       width = 0, height = 0, centerX = 0, centerY = 0, maxDepth = 0,
       speedMultiplier = 1 / 2, trailLength = 13 / 2, lastTime = 0, running = True,
       rafId = Some 0, canvasWidth = 0, canvasHeight = 0, ctxLog = [SetTransform 1],
       rafPending = [0], rafNext = 1, randomSeq = constant_random (1 / 2), randomPos = 6 \<rparr>"
    by (simp add: collapsed_instance_def Starfield_def one_star_options_def no_options_def
      assign_options_def pick_def DEFAULTS_def resolveTarget_def detectFullPage_def
      example_env_def initStars_def createStar_def resetStar_def random_def
      constant_random_def Let_def resize_def measureSize_def isMobileViewport_def getDpr_def
      nativeDpr_def start_def requestAnimationFrame_def)
  have b: "running collapsed_instance"
    "frameScale_of collapsed_instance 16 = 0"
    "maxDepth (animate collapsed_instance 16) = 0"
    "map star_z (stars (animate collapsed_instance 16)) = [0]"
    unfolding c by (simp_all add: eval_defs)
  from a b show ?thesis
    by simp
qed

subsection \<open>A star at rest on the axis\<close>

lemma still_not_recycled:
  assumes "opt_speed (options s) = 0" "star_x st = 0" "star_y st = 0" "1 \<le> star_z st"
    "centerX s = width s / 2" "centerY s = height s / 2" "0 \<le> width s" "0 \<le> height s"
  shows "\<not> recycle_condition s st fs"
  using assms
  by (simp add: recycle_condition_def Let_def isOffscreen_def projectX_def projectY_def
      map_js_def)

lemma still_frame:
  assumes "opt_speed (options s) = 0" "stars s = [st]" "star_x st = 0" "star_y st = 0"
    "1 \<le> star_z st"
    "centerX s = width s / 2" "centerY s = height s / 2" "0 \<le> width s" "0 \<le> height s"
  shows "stars (animateFrame s fs) = [st\<lparr>star_pz := star_z st\<rparr>]"
    and "\<exists>ops. ctxLog (animateFrame s fs) = ctxLog s @ ops \<and>
           map stroke_end ops = [None, Some (centerX s, centerY s)]"
proof -
  let ?s1 = "s\<lparr>ctxLog := ctxLog s @
      [FillRect (opt_backgroundColor (options s)) 0 0 (width s) (height s)]\<rparr>"
  have n: "\<not> recycle_condition ?s1 st fs"
    using assms by (intro still_not_recycled) simp_all
  have e: "stepStar ?s1 fs st = drawStar ?s1 st"
    using assms(1) by (simp add: stepStar_alive [OF n])
  have p: "projectX ?s1 (star_x st) (star_z st) = centerX s"
    "projectY ?s1 (star_y st) (star_z st) = centerY s"
    using assms by (simp_all add: projectX_def projectY_def map_js_def)
  show "stars (animateFrame s fs) = [st\<lparr>star_pz := star_z st\<rparr>]"
    by (simp add: animateFrame_def Let_def split_beta assms(2) e drawStar_def)
  have "ctxLog (animateFrame s fs) = ctxLog (snd (drawStar ?s1 st))"
    by (simp add: animateFrame_def Let_def split_beta assms(2) e)
  then show "\<exists>ops. ctxLog (animateFrame s fs) = ctxLog s @ ops \<and>
           map stroke_end ops = [None, Some (centerX s, centerY s)]"
    by (simp add: drawStar_def Let_def p)
qed

lemma still_run:
  assumes "opt_speed (options s) = 0" "stars s = [st]" "star_x st = 0" "star_y st = 0"
    "1 \<le> star_z st"
    "centerX s = width s / 2" "centerY s = height s / 2" "0 \<le> width s" "0 \<le> height s"
  shows "map star_x (stars (runFrames s fss)) = [0] \<and>
         map star_y (stars (runFrames s fss)) = [0] \<and>
         map star_z (stars (runFrames s fss)) = [star_z st] \<and>
         (\<exists>ops. ctxLog (runFrames s fss) = ctxLog s @ ops \<and>
            map stroke_end ops =
              concat (replicate (length fss) [None, Some (centerX s, centerY s)]))"
  using assms
proof (induction fss arbitrary: s st)
  case Nil
  have "ctxLog (runFrames s []) = ctxLog s @ [] \<and>
      map stroke_end [] = concat (replicate (length ([] :: real list)) [None, Some (centerX s, centerY s)])"
    by (simp add: runFrames_def)
  then have "\<exists>ops. ctxLog (runFrames s []) = ctxLog s @ ops \<and>
      map stroke_end ops = concat (replicate (length ([] :: real list)) [None, Some (centerX s, centerY s)])"
    by (rule exI)
  moreover have "stars (runFrames s []) = [st]"
    by (simp add: runFrames_def Nil.prems(2))
  ultimately show ?case
    by (simp add: Nil.prems(3,4))
next
  case (Cons f fss)
  let ?s1 = "animateFrame s f"
  let ?st1 = "st\<lparr>star_pz := star_z st\<rparr>"
  note fr = still_frame [OF Cons.prems, of f]
  have ih: "map star_x (stars (runFrames ?s1 fss)) = [0] \<and>
         map star_y (stars (runFrames ?s1 fss)) = [0] \<and>
         map star_z (stars (runFrames ?s1 fss)) = [star_z ?st1] \<and>
         (\<exists>ops. ctxLog (runFrames ?s1 fss) = ctxLog ?s1 @ ops \<and>
            map stroke_end ops =
              concat (replicate (length fss) [None, Some (centerX ?s1, centerY ?s1)]))"
  proof (rule Cons.IH)
    show "opt_speed (options ?s1) = 0" by (simp add: animateFrame_fields Cons.prems(1))
    show "stars ?s1 = [?st1]" by (rule fr(1))
    show "star_x ?st1 = 0" "star_y ?st1 = 0" "1 \<le> star_z ?st1"
      by (simp_all add: Cons.prems(3,4,5))
    show "centerX ?s1 = width ?s1 / 2" "centerY ?s1 = height ?s1 / 2"
      "0 \<le> width ?s1" "0 \<le> height ?s1"
      by (simp_all add: animateFrame_fields Cons.prems(6,7,8,9))
  qed
  from fr(2) obtain ops1 where o1': "ctxLog ?s1 = ctxLog s @ ops1 \<and>
    map stroke_end ops1 = [None, Some (centerX s, centerY s)]" ..
  note o1 = o1' [THEN conjunct1] o1' [THEN conjunct2]
  from ih [THEN conjunct2, THEN conjunct2, THEN conjunct2]
  obtain ops2 where o2': "ctxLog (runFrames ?s1 fss) = ctxLog ?s1 @ ops2 \<and>
    map stroke_end ops2 =
      concat (replicate (length fss) [None, Some (centerX ?s1, centerY ?s1)])" ..
  note o2 = o2' [THEN conjunct1] o2' [THEN conjunct2]
  have c: "centerX ?s1 = centerX s" "centerY ?s1 = centerY s"
    by (simp_all add: animateFrame_fields)
  have r: "runFrames s (f # fss) = runFrames ?s1 fss"
    by (simp add: runFrames_def)
  have "ctxLog (runFrames s (f # fss)) = ctxLog s @ (ops1 @ ops2) \<and>
      map stroke_end (ops1 @ ops2) =
        concat (replicate (length (f # fss)) [None, Some (centerX s, centerY s)])"
    by (simp add: r o1 o2 c)
  then have e: "\<exists>ops. ctxLog (runFrames s (f # fss)) = ctxLog s @ ops \<and>
      map stroke_end ops =
        concat (replicate (length (f # fss)) [None, Some (centerX s, centerY s)])"
    by (rule exI)
  have "map star_x (stars (runFrames s (f # fss))) = [0]"
    "map star_y (stars (runFrames s (f # fss))) = [0]"
    "map star_z (stars (runFrames s (f # fss))) = [star_z st]"
    using ih [THEN conjunct1] ih [THEN conjunct2, THEN conjunct1]
      ih [THEN conjunct2, THEN conjunct2, THEN conjunct1]
    by (simp_all add: r)
  with e show ?case
    by (intro conjI)
qed

text \<open>
  Claim C9, as amended. With \<^verbatim>\<open>speed = 0\<close> and a single star with \<open>x = 0\<close>, \<open>y = 0\<close> and a
  depth of at least 1, in a viewport whose centre is the middle of a \<open>width \<times> height\<close>
  rectangle with sides that are not negative: for every sequence of frame scales the star
  keeps its position and depth, and every tick paints the background and draws one
  stroke, which ends at \<open>(centerX, centerY)\<close>.
\<close>

theorem still_star_stays_centred:
  assumes "opt_speed (options s) = 0" and "stars s = [st]"
    and "star_x st = 0" and "star_y st = 0" and "1 \<le> star_z st"
    and "centerX s = width s / 2" and "centerY s = height s / 2"
    and "0 \<le> width s" and "0 \<le> height s"
  shows "map star_x (stars (runFrames s frameScales)) = [0] \<and>
         map star_y (stars (runFrames s frameScales)) = [0] \<and>
         map star_z (stars (runFrames s frameScales)) = [star_z st] \<and>
         (\<exists>ops. ctxLog (runFrames s frameScales) = ctxLog s @ ops \<and>
            map stroke_end ops =
              concat (replicate (length frameScales) [None, Some (centerX s, centerY s)]))"
  using assms by (rule still_run)

theorem still_star_stays_centred_witness:
  "opt_speed (options (still_instance axis_star)) = 0 \<and>
   stars (still_instance axis_star) = [axis_star] \<and>
   star_x axis_star = 0 \<and> star_y axis_star = 0 \<and> 1 \<le> star_z axis_star \<and>
   map star_z (stars (runFrames (still_instance axis_star) [1, 5, 0])) = [400] \<and>
   map stroke_end (ctxLog (runFrames (still_instance axis_star) [1, 5, 0])) =
     [None, Some (400, 300), None, Some (400, 300), None, Some (400, 300)]"
proof -
  have h: "opt_speed (options (still_instance axis_star)) = 0"
    "stars (still_instance axis_star) = [axis_star]"
    "star_x axis_star = 0" "star_y axis_star = 0" "1 \<le> star_z axis_star"
    "centerX (still_instance axis_star) = width (still_instance axis_star) / 2"
    "centerY (still_instance axis_star) = height (still_instance axis_star) / 2"
    "0 \<le> width (still_instance axis_star)" "0 \<le> height (still_instance axis_star)"
    by (simp_all add: still_instance_def example_instance_def axis_star_def)
  have f: "ctxLog (still_instance axis_star) = []"
    "centerX (still_instance axis_star) = 400" "centerY (still_instance axis_star) = 300"
    "star_z axis_star = 400"
    by (simp_all add: still_instance_def example_instance_def axis_star_def)
  have r: "replicate (length [1, 5, 0 :: real]) [None, Some (400 :: real, 300 :: real)] =
      [[None, Some (400, 300)], [None, Some (400, 300)], [None, Some (400, 300)]]"
    by (simp add: numeral_3_eq_3)
  from still_star_stays_centred [OF h, of "[1, 5, 0]"] h(1-5) show ?thesis
    by (auto simp add: f r)
qed

text \<open>
  The claim as stated fails for a star that starts nearer than depth 1: with \<open>z = 1/2\<close> the
  first tick recycles it by depth and draws nothing, and from then on it is drawn away
  from the centre.
\<close>

theorem still_star_counterexample:
  "opt_speed (options (still_instance shallow_star)) = 0 \<and>
   stars (still_instance shallow_star) = [shallow_star] \<and>
   star_x shallow_star = 0 \<and> star_y shallow_star = 0 \<and>
   fst (updateStar (still_instance shallow_star) shallow_star 1) = False \<and>
   map stroke_end (ctxLog (runFrames (still_instance shallow_star) [1])) = [None] \<and>
   centerX (runFrames (still_instance shallow_star) [1, 1]) = 400 \<and>
   centerY (runFrames (still_instance shallow_star) [1, 1]) = 300 \<and>
   map stroke_end (ctxLog (runFrames (still_instance shallow_star) [1, 1])) =
     [None, None, Some (600, 825 / 2)]"
  by (simp add: still_instance_def shallow_star_def eval_defs)

end
